theory Spec2Isabelle
  imports Main
begin

section \<open>JavaScript values seen by the message parsers\<close>

text \<open>
  The two exported parsers of \<^verbatim>\<open>src/message-hub.js\<close> (second document of the file,
  ``Utility functions to parse data out of Flockwave messages'') read messages that the
  server sent as JSON. A message is therefore JSON data: \<^verbatim>\<open>null\<close>, booleans, numbers,
  strings, arrays and objects.

  \<^item> A number is represented by its canonical decimal form, the string that the language's
    number-to-string conversion yields for it (\<^verbatim>\<open>0\<close>, \<^verbatim>\<open>-1\<close>, \<^verbatim>\<open>1.5\<close>, \<^verbatim>\<open>1e+21\<close>). The
    parsers never calculate; they only test a number for truthiness and print it.
  \<^item> A string is its list of code units.
  \<^item> An object is the list of its own properties; the first binding of a key is the
    property.
\<close>

datatype json =
    JNull
  | JBool bool
  | JNum string
  | JStr string
  | JArr "json list"
  | JObj "(string \<times> json) list"

text \<open>
  A value the code handles is \<^verbatim>\<open>undefined\<close>, a piece of JSON data, or a built-in of the
  engine (a function such as \<^verbatim>\<open>Object.prototype.toString\<close>, or a prototype object), which
  a property read can return although no message contains it. A built-in carries whether
  it is callable and the string it converts to.
\<close>

datatype jsval =
    Undefined
  | Data json
  | Builtin bool string

text \<open>
  Exceptions: \<^verbatim>\<open>new Error(msg)\<close> and \<^verbatim>\<open>new TypeError(msg)\<close> as thrown by the code, and the
  \<^verbatim>\<open>TypeError\<close> the engine itself throws when a property of \<^verbatim>\<open>undefined\<close> or \<^verbatim>\<open>null\<close> is
  read or when an object cannot be converted to a string (its message text is the
  engine's own).
\<close>

datatype js_exception =
    JsError string
  | JsTypeError string
  | NativeTypeError

fun typeof :: "jsval \<Rightarrow> string" where
  "typeof Undefined = ''undefined''"
| "typeof (Data JNull) = ''object''"
| "typeof (Data (JBool b)) = ''boolean''"
| "typeof (Data (JNum n)) = ''number''"
| "typeof (Data (JStr s)) = ''string''"
| "typeof (Data (JArr xs)) = ''object''"
| "typeof (Data (JObj kvs)) = ''object''"
| "typeof (Builtin callable s) = (if callable then ''function'' else ''object'')"

text \<open>Truthiness: \<^verbatim>\<open>undefined\<close>, \<^verbatim>\<open>null\<close>, \<^verbatim>\<open>false\<close>, zero, NaN and the empty string are falsy.\<close>

fun truthy :: "jsval \<Rightarrow> bool" where
  "truthy Undefined = False"
| "truthy (Data JNull) = False"
| "truthy (Data (JBool b)) = b"
| "truthy (Data (JNum n)) = (n \<noteq> ''0'' \<and> n \<noteq> ''NaN'')"
| "truthy (Data (JStr s)) = (s \<noteq> [])"
| "truthy (Data (JArr xs)) = True"
| "truthy (Data (JObj kvs)) = True"
| "truthy (Builtin callable s) = True"

text \<open>\<^verbatim>\<open>v == null\<close>: reading a property of such a value throws.\<close>

definition nullish :: "jsval \<Rightarrow> bool" where
  "nullish v = (v = Undefined \<or> v = Data JNull)"

text \<open>\<^verbatim>\<open>a || b\<close>\<close>

definition js_or :: "jsval \<Rightarrow> jsval \<Rightarrow> jsval" where
  "js_or a b = (if truthy a then a else b)"

subsection \<open>Conversion to string\<close>

text \<open>
  \<^verbatim>\<open>ToString\<close> on JSON data. An array prints its elements joined by commas, \<^verbatim>\<open>null\<close>
  elements as the empty string. A plain object prints as \<^verbatim>\<open>[object Object]\<close> through the
  inherited \<^verbatim>\<open>toString\<close>; when the object has an own property \<^verbatim>\<open>toString\<close> (JSON data, hence
  not callable) the conversion finds no usable method and the engine throws a
  \<^verbatim>\<open>TypeError\<close>: the result is \<open>None\<close>.
\<close>

fun to_string :: "json \<Rightarrow> string option"
  and join_elements :: "json list \<Rightarrow> string option" where
  "to_string JNull = Some ''null''"
| "to_string (JBool b) = Some (if b then ''true'' else ''false'')"
| "to_string (JNum n) = Some n"
| "to_string (JStr s) = Some s"
| "to_string (JArr xs) = join_elements xs"
| "to_string (JObj kvs) =
     (if map_of kvs ''toString'' = None then Some ''[object Object]'' else None)"
| "join_elements [] = Some []"
| "join_elements [x] = (if x = JNull then Some [] else to_string x)"
| "join_elements (x # y # ys) =
     (case (if x = JNull then Some [] else to_string x) of
        None \<Rightarrow> None
      | Some s \<Rightarrow>
          (case join_elements (y # ys) of
             None \<Rightarrow> None
           | Some t \<Rightarrow> Some (s @ '','' @ t)))"

fun to_string_val :: "jsval \<Rightarrow> string option" where
  "to_string_val Undefined = Some ''undefined''"
| "to_string_val (Data d) = to_string d"
| "to_string_val (Builtin callable s) = Some s"

text \<open>
  \<^verbatim>\<open>new Error(x)\<close>: the message is \<^verbatim>\<open>ToString(x)\<close> (empty when \<^verbatim>\<open>x\<close> is \<^verbatim>\<open>undefined\<close>); a
  conversion that throws replaces the error under construction.
\<close>

definition new_Error :: "jsval \<Rightarrow> js_exception" where
  "new_Error x =
     (if x = Undefined then JsError []
      else case to_string_val x of None \<Rightarrow> NativeTypeError | Some s \<Rightarrow> JsError s)"

subsection \<open>Property reads\<close>

text \<open>Decimal form of an array index.\<close>

fun show_nat :: "nat \<Rightarrow> string" where
  "show_nat n =
     (if n < 10 then [''0123456789'' ! n]
      else show_nat (n div 10) @ [''0123456789'' ! (n mod 10)])"

declare show_nat.simps [simp del]

definition index_of_key :: "nat \<Rightarrow> string \<Rightarrow> nat option" where
  "index_of_key n k = find (\<lambda>i. show_nat i = k) [0..<n]"

text \<open>
  Own properties: the bindings of an object; the elements and the length of an array;
  the code units and the length of a string.
\<close>

fun own_prop :: "jsval \<Rightarrow> string \<Rightarrow> jsval option" where
  "own_prop (Data (JObj kvs)) k = map_option Data (map_of kvs k)"
| "own_prop (Data (JArr xs)) k =
     (if k = ''length'' then Some (Data (JNum (show_nat (length xs))))
      else map_option (\<lambda>i. Data (xs ! i)) (index_of_key (length xs) k))"
| "own_prop (Data (JStr s)) k =
     (if k = ''length'' then Some (Data (JNum (show_nat (length s))))
      else map_option (\<lambda>i. Data (JStr [s ! i])) (index_of_key (length s) k))"
| "own_prop v k = None"

text \<open>
  What a read finds beyond the own properties (the members inherited along the prototype
  chain, and the members of built-ins) depends on the engine. It is a parameter of the
  model: \<open>M v k\<close> is the member of \<open>v\<close> under key \<open>k\<close>, if there is one.
\<close>

type_synonym members = "jsval \<Rightarrow> string \<Rightarrow> jsval option"

text \<open>\<^verbatim>\<open>v[k]\<close> for \<open>v\<close> other than \<^verbatim>\<open>undefined\<close> and \<^verbatim>\<open>null\<close>.\<close>

definition get_prop :: "members \<Rightarrow> jsval \<Rightarrow> string \<Rightarrow> jsval" where
  "get_prop M v k =
     (case own_prop v k of
        Some x \<Rightarrow> x
      | None \<Rightarrow> (case M v k of Some x \<Rightarrow> x | None \<Rightarrow> Undefined))"

text \<open>\<^verbatim>\<open>k in Object(v)\<close>\<close>

definition has_property :: "members \<Rightarrow> jsval \<Rightarrow> string \<Rightarrow> bool" where
  "has_property M v k = (own_prop v k \<noteq> None \<or> M v k \<noteq> None)"

text \<open>
  The members a plain object inherits from \<^verbatim>\<open>Object.prototype\<close> in an unmodified V8, with
  the strings they convert to. This environment is for plain objects only: for any other
  receiver it lists nothing, whereas an engine lets a string inherit \<^verbatim>\<open>charAt\<close>, an array
  \<^verbatim>\<open>push\<close>, and so on. Every example below reads properties of plain objects only; the
  general theorems are about every environment \<open>M\<close>.
\<close>

definition object_prototype_functions :: "string list" where
  "object_prototype_functions =
     [''hasOwnProperty'', ''isPrototypeOf'', ''propertyIsEnumerable'', ''toLocaleString'',
      ''toString'', ''valueOf'', ''__defineGetter__'', ''__defineSetter__'',
      ''__lookupGetter__'', ''__lookupSetter__'']"

definition plain_object_members :: members where
  "plain_object_members v k =
     (case v of
        Data (JObj kvs) \<Rightarrow>
          (if k = ''constructor'' then Some (Builtin True ''function Object() { [native code] }'')
           else if k \<in> set object_prototype_functions
             then Some (Builtin True (''function '' @ k @ ''() { [native code] }''))
           else if k = ''__proto__'' then Some (Builtin False ''[object Object]'')
           else None)
      | _ \<Rightarrow> None)"

section \<open>Receipts and results of commands\<close>

text \<open>
  \<^verbatim>\<open>
  const MESSAGES_WITH_RECEIPTS = {
    'OBJ-CMD': true, 'UAV-FLY': true, 'UAV-HALT': true, 'UAV-LAND': true,
    'UAV-RST': true, 'UAV-RTH': true, 'UAV-SIGNAL': true, 'UAV-TAKEOFF': true,
  };
  \<close>
\<close>

definition MESSAGES_WITH_RECEIPTS :: jsval where
  "MESSAGES_WITH_RECEIPTS =
     Data (JObj [(''OBJ-CMD'', JBool True), (''UAV-FLY'', JBool True),
                 (''UAV-HALT'', JBool True), (''UAV-LAND'', JBool True),
                 (''UAV-RST'', JBool True), (''UAV-RTH'', JBool True),
                 (''UAV-SIGNAL'', JBool True), (''UAV-TAKEOFF'', JBool True)])"

text \<open>
  \<^verbatim>\<open>
  export function extractResultOrReceiptFromMaybeAsyncResponse(message, uavId) {
    const { body } = message;
    const { type } = body;
    if (type === 'ACK-NAK') {
      throw new Error(body.reason || 'ACK-NAK received; no reason given');
    } else if (MESSAGES_WITH_RECEIPTS[type]) {
      const { error, receipt, result } = body;
      if (error && error[uavId] !== undefined) {
        throw new Error(body.error[uavId] || 'Failed to execute command');
      } else if (result && result[uavId] !== undefined) {
        return { result: result[uavId] };
      } else if (receipt && receipt[uavId] !== undefined) {
        return { receipt: receipt[uavId] };
      } else {
        throw new Error('Server did not provide a response or receipt for the command');
      }
    } else {
      throw new Error(`${type} messages do not contain receipts`);
    }
  }
  \<close>
  Destructuring \<^verbatim>\<open>undefined\<close> or \<^verbatim>\<open>null\<close> throws. The key of the table lookup and the text
  of the template are both \<^verbatim>\<open>ToString(type)\<close>. The returned object literal is the list
  of its own properties.
\<close>

definition extractResultOrReceiptFromMaybeAsyncResponse ::
  "members \<Rightarrow> jsval \<Rightarrow> string \<Rightarrow> js_exception + (string \<times> jsval) list" where
  "extractResultOrReceiptFromMaybeAsyncResponse M message uavId =
     (if nullish message then Inl NativeTypeError
      else let body = get_prop M message ''body'' in
      if nullish body then Inl NativeTypeError
      else let type = get_prop M body ''type'' in
      if type = Data (JStr ''ACK-NAK'') then
        Inl (new_Error (js_or (get_prop M body ''reason'')
                              (Data (JStr ''ACK-NAK received; no reason given''))))
      else case to_string_val type of
        None \<Rightarrow> Inl NativeTypeError
      | Some key \<Rightarrow>
          if truthy (get_prop M MESSAGES_WITH_RECEIPTS key) then
            let error = get_prop M body ''error'';
                receipt = get_prop M body ''receipt'';
                result = get_prop M body ''result'' in
            if truthy error \<and> get_prop M error uavId \<noteq> Undefined then
              Inl (new_Error (js_or (get_prop M (get_prop M body ''error'') uavId)
                                    (Data (JStr ''Failed to execute command''))))
            else if truthy result \<and> get_prop M result uavId \<noteq> Undefined then
              Inr [(''result'', get_prop M result uavId)]
            else if truthy receipt \<and> get_prop M receipt uavId \<noteq> Undefined then
              Inr [(''receipt'', get_prop M receipt uavId)]
            else
              Inl (JsError ''Server did not provide a response or receipt for the command'')
          else
            Inl (JsError (key @ '' messages do not contain receipts'')))"

section \<open>Responses with \<^verbatim>\<open>status\<close> and \<^verbatim>\<open>error\<close> keys\<close>

subsection \<open>The path lookup of lodash\<close>

text \<open>
  \<^verbatim>\<open>get(object, path)\<close> of lodash, for a path of words separated by dots (the program passes
  \<^verbatim>\<open>'body.error'\<close> and \<^verbatim>\<open>'body.status'\<close>), after the library's \<^verbatim>\<open>get\<close>, \<^verbatim>\<open>baseGet\<close>, \<^verbatim>\<open>castPath\<close>
  and \<^verbatim>\<open>isKey\<close>:
  \<^verbatim>\<open>
  function get(object, path, defaultValue) {
    var result = object == null ? undefined : baseGet(object, path);
    return result === undefined ? defaultValue : result;
  }
  function baseGet(object, path) {
    path = castPath(path, object);
    var index = 0, length = path.length;
    while (object != null && index < length) {
      object = object[toKey(path[index++])];
    }
    return (index && index == length) ? object : undefined;
  }
  \<close>
  \<^verbatim>\<open>castPath\<close> keeps the whole path as one key when \<^verbatim>\<open>path in Object(object)\<close>, and splits
  it at the dots otherwise. The walk stops with \<^verbatim>\<open>undefined\<close> at the first \<^verbatim>\<open>undefined\<close> or
  \<^verbatim>\<open>null\<close> that still has a key to read; a \<^verbatim>\<open>null\<close> found under the last key is returned.
\<close>

fun split_dots :: "string \<Rightarrow> string list" where
  "split_dots [] = [[]]"
| "split_dots (c # cs) =
     (if c = CHR ''.'' then [] # split_dots cs
      else (case split_dots cs of
              [] \<Rightarrow> [[c]]
            | seg # segs \<Rightarrow> (c # seg) # segs))"

fun baseGet_walk :: "members \<Rightarrow> jsval \<Rightarrow> string list \<Rightarrow> jsval" where
  "baseGet_walk M object [] = object"
| "baseGet_walk M object (key # path) =
     (if nullish object then Undefined
      else baseGet_walk M (get_prop M object key) path)"

definition lodash_get :: "members \<Rightarrow> jsval \<Rightarrow> string \<Rightarrow> jsval" where
  "lodash_get M object path =
     (if nullish object then Undefined
      else baseGet_walk M object
             (if has_property M object path then [path] else split_dots path))"

subsection \<open>The parser\<close>

text \<open>
  \<^verbatim>\<open>
  export function extractResponseForId(message, id, options = {}) {
    const errors = get(message, 'body.error');
    if (typeof errors === 'object' && errors[id] !== undefined) {
      if (typeof errors[id] === 'string') {
        throw new TypeError(errors[id]);
      } else {
        const { error } = options;
        throw new Error(error || `Failed to retrieve result for ID ${id} from response`);
      }
    }
    const results = get(message, 'body.status');
    if (typeof results === 'object' && typeof results[id] !== 'undefined') {
      return results[id];
    }
    throw new Error(
      `No result for ID ${id} but no error either; this should not have happened.`);
  }
  \<close>
  \<^verbatim>\<open>typeof null\<close> is \<^verbatim>\<open>'object'\<close>, so a \<^verbatim>\<open>null\<close> passes either guard and the read of its
  property throws. The default \<^verbatim>\<open>{}\<close> replaces an \<^verbatim>\<open>options\<close> argument that is \<^verbatim>\<open>undefined\<close>;
  destructuring \<^verbatim>\<open>null\<close> throws.
\<close>

definition extractResponseForId ::
  "members \<Rightarrow> jsval \<Rightarrow> string \<Rightarrow> jsval \<Rightarrow> js_exception + jsval" where
  "extractResponseForId M message ident options =
     (let errors = lodash_get M message ''body.error'' in
      if typeof errors = ''object'' \<and> errors = Data JNull then Inl NativeTypeError
      else if typeof errors = ''object'' \<and> get_prop M errors ident \<noteq> Undefined then
        (case get_prop M errors ident of
           Data (JStr s) \<Rightarrow> Inl (JsTypeError s)
         | _ \<Rightarrow>
             (let opts = (if options = Undefined then Data (JObj []) else options) in
              if nullish opts then Inl NativeTypeError
              else Inl (new_Error (js_or (get_prop M opts ''error'')
                     (Data (JStr (''Failed to retrieve result for ID '' @ ident
                                  @ '' from response'')))))))
      else
        let results = lodash_get M message ''body.status'' in
        if typeof results = ''object'' \<and> results = Data JNull then Inl NativeTypeError
        else if typeof results = ''object'' \<and> get_prop M results ident \<noteq> Undefined then
          Inr (get_prop M results ident)
        else
          Inl (JsError (''No result for ID '' @ ident
                        @ '' but no error either; this should not have happened.'')))"

section \<open>Vocabulary of the properties\<close>

text \<open>
  The guard of the first parser, \<^verbatim>\<open>m && m[k] !== undefined\<close>. It is a property read, so it
  is true when \<open>m\<close> holds an entry for \<open>k\<close> and also when \<open>m\<close> inherits a member named \<open>k\<close>.
\<close>

definition has_entry :: "members \<Rightarrow> jsval \<Rightarrow> string \<Rightarrow> bool" where
  "has_entry M m k = (truthy m \<and> get_prop M m k \<noteq> Undefined)"

text \<open>
  The guard of the second parser, \<^verbatim>\<open>typeof m === 'object' && m[k] !== undefined\<close>, on a
  value \<open>m\<close> whose property can be read (\<open>m\<close> is not \<^verbatim>\<open>null\<close>). It is a property read too.
\<close>

definition object_has_entry :: "members \<Rightarrow> jsval \<Rightarrow> string \<Rightarrow> bool" where
  "object_has_entry M m k =
     (typeof m = ''object'' \<and> m \<noteq> Data JNull \<and> get_prop M m k \<noteq> Undefined)"

text \<open>
  The map \<open>m\<close> has an entry for \<open>k\<close>: \<open>m\<close> is an object and \<open>k\<close> is one of its own keys.
  What \<open>m\<close> inherits is no entry of the map.
\<close>

definition holds_entry :: "jsval \<Rightarrow> string \<Rightarrow> bool" where
  "holds_entry m k = (case m of Data (JObj kvs) \<Rightarrow> map_of kvs k \<noteq> None | _ \<Rightarrow> False)"

text \<open>
  The map \<open>m\<close> is absent, or it is an object that has no entry for \<open>k\<close> and inherits no
  member named \<open>k\<close> either: a read of \<open>m[k]\<close> finds nothing at all.
\<close>

definition lacks_entry :: "members \<Rightarrow> jsval \<Rightarrow> string \<Rightarrow> bool" where
  "lacks_entry M m k =
     (case m of
        Undefined \<Rightarrow> True
      | Data (JObj kvs) \<Rightarrow> map_of kvs k = None \<and> M m k = None
      | _ \<Rightarrow> False)"

text \<open>The eight type names that are the keys of \<open>MESSAGES_WITH_RECEIPTS\<close>.\<close>

definition receipt_bearing_types :: "string set" where
  "receipt_bearing_types =
     {''OBJ-CMD'', ''UAV-FLY'', ''UAV-HALT'', ''UAV-LAND'', ''UAV-RST'', ''UAV-RTH'',
      ''UAV-SIGNAL'', ''UAV-TAKEOFF''}"

section \<open>Auxiliary facts\<close>

lemma split_dots_body_error: "split_dots ''body.error'' = [''body'', ''error'']"
  by simp

lemma split_dots_body_status: "split_dots ''body.status'' = [''body'', ''status'']"
  by simp

text \<open>
  On a message without a property literally named \<^verbatim>\<open>body.error\<close>, the path lookup is
  \<^verbatim>\<open>message.body.error\<close>, guarded against a missing body.
\<close>

lemma lodash_get_body_error:
  assumes "\<not> nullish message" and "\<not> has_property M message ''body.error''"
  shows "lodash_get M message ''body.error'' =
     (if nullish (get_prop M message ''body'') then Undefined
      else get_prop M (get_prop M message ''body'') ''error'')"
  using assms by (simp add: lodash_get_def)

lemma lodash_get_body_status:
  assumes "\<not> nullish message" and "\<not> has_property M message ''body.status''"
  shows "lodash_get M message ''body.status'' =
     (if nullish (get_prop M message ''body'') then Undefined
      else get_prop M (get_prop M message ''body'') ''status'')"
  using assms by (simp add: lodash_get_def)

lemma receipt_type_lookup:
  assumes "t \<in> receipt_bearing_types"
  shows "t \<noteq> ''ACK-NAK''" and "get_prop M MESSAGES_WITH_RECEIPTS t = Data (JBool True)"
  using assms
  by (auto simp: receipt_bearing_types_def MESSAGES_WITH_RECEIPTS_def get_prop_def)

text \<open>The set named above is the set of the table's own keys.\<close>

lemma receipt_types_are_table_keys:
  "own_prop MESSAGES_WITH_RECEIPTS t \<noteq> None \<longleftrightarrow> t \<in> receipt_bearing_types"
  by (simp add: MESSAGES_WITH_RECEIPTS_def receipt_bearing_types_def)

text \<open>The second branch of the parser, once the type is one of the eight.\<close>

lemma receipt_branch:
  assumes "\<not> nullish message"
    and "\<not> nullish (get_prop M message ''body'')"
    and "get_prop M (get_prop M message ''body'') ''type'' = Data (JStr t)"
    and "t \<in> receipt_bearing_types"
  shows "extractResultOrReceiptFromMaybeAsyncResponse M message uavId =
     (let body = get_prop M message ''body'' in
      if has_entry M (get_prop M body ''error'') uavId then
        Inl (new_Error (js_or (get_prop M (get_prop M body ''error'') uavId)
                              (Data (JStr ''Failed to execute command''))))
      else if has_entry M (get_prop M body ''result'') uavId then
        Inr [(''result'', get_prop M (get_prop M body ''result'') uavId)]
      else if has_entry M (get_prop M body ''receipt'') uavId then
        Inr [(''receipt'', get_prop M (get_prop M body ''receipt'') uavId)]
      else Inl (JsError ''Server did not provide a response or receipt for the command''))"
  using assms receipt_type_lookup(1) [OF assms(4)] receipt_type_lookup(2) [OF assms(4), of M]
  by (simp add: extractResultOrReceiptFromMaybeAsyncResponse_def has_entry_def Let_def)

lemma new_Error_string: "s \<noteq> [] \<Longrightarrow> new_Error (js_or (Data (JStr s)) d) = JsError s"
  by (simp add: new_Error_def js_or_def)

lemma new_Error_default: "\<not> truthy v \<Longrightarrow> new_Error (js_or v (Data (JStr d))) = JsError d"
  by (simp add: new_Error_def js_or_def)

lemma missing_outcome_not_unsupported:
  "''Server did not provide a response or receipt for the command''
     \<noteq> key @ '' messages do not contain receipts''"
proof
  assume eq: "''Server did not provide a response or receipt for the command''
     = key @ '' messages do not contain receipts''"
  have "last (key @ '' messages do not contain receipts'') = CHR ''s''"
    by simp
  moreover have "last ''Server did not provide a response or receipt for the command'' = CHR ''d''"
    by simp
  ultimately show False
    using eq by simp
qed

text \<open>An entry of the map passes either guard, and the read yields the entry.\<close>

lemma holds_entry_guards:
  assumes "holds_entry m k"
  shows "has_entry M m k" and "object_has_entry M m k"
    and "own_prop m k = Some (get_prop M m k)"
  using assms
  by (auto simp: holds_entry_def has_entry_def object_has_entry_def get_prop_def
      split: jsval.splits json.splits)

text \<open>Where the read finds nothing, neither guard passes.\<close>

lemma lacks_entry_guards:
  assumes "lacks_entry M m k"
  shows "\<not> has_entry M m k" and "\<not> object_has_entry M m k" and "m \<noteq> Data JNull"
  using assms
  by (auto simp: lacks_entry_def has_entry_def object_has_entry_def get_prop_def
      split: jsval.splits json.splits)

lemmas example_simps =
  nullish_def get_prop_def has_property_def plain_object_members_def
  object_prototype_functions_def has_entry_def object_has_entry_def
  receipt_bearing_types_def lodash_get_def new_Error_def js_or_def
  holds_entry_def lacks_entry_def

section \<open>Properties of \<open>extractResultOrReceiptFromMaybeAsyncResponse\<close>\<close>

subsection \<open>Rejected commands\<close>

text \<open>
  Claim C1 states that a message of the shape \<^verbatim>\<open>{ type: "ACK-NAK", body: { reason: "busy" } }\<close>
  resolves every target to \<^verbatim>\<open>Error("busy")\<close>. The parser reads the type from the body
  (\<^verbatim>\<open>const { type } = body\<close>), never from the message. On a message of that shape the
  body has no type, the table lookup is made under the key \<^verbatim>\<open>undefined\<close>, and the failure
  is the one for types without receipts.
\<close>

theorem rejection_type_at_top_level_counterexample:
  "extractResultOrReceiptFromMaybeAsyncResponse plain_object_members
     (Data (JObj [(''type'', JStr ''ACK-NAK''),
                  (''body'', JObj [(''reason'', JStr ''busy'')])])) ''uav-1''
     = Inl (JsError ''undefined messages do not contain receipts'')
   \<and> extractResultOrReceiptFromMaybeAsyncResponse plain_object_members
     (Data (JObj [(''type'', JStr ''ACK-NAK''),
                  (''body'', JObj [(''reason'', JStr ''busy'')])])) ''uav-1''
     \<noteq> Inl (JsError ''busy'')"
  by (simp add: extractResultOrReceiptFromMaybeAsyncResponse_def MESSAGES_WITH_RECEIPTS_def
      example_simps)

text \<open>
  Claim C1, amended: for every message whose body has the type \<^verbatim>\<open>ACK-NAK\<close>
  (\<^verbatim>\<open>{ body: { type: "ACK-NAK", reason?: string } }\<close>) and for every target id, the parser
  throws an \<^verbatim>\<open>Error\<close> made from the body's \<^verbatim>\<open>reason\<close>: the reason itself when it is a
  non-empty string, and \<^verbatim>\<open>ACK-NAK received; no reason given\<close> when the reason is absent or
  falsy. The target id plays no part. (For a truthy reason that is not a string the
  message is its string form, see \<open>new_Error\<close>.)
\<close>

theorem rejection_resolves_to_error:
  assumes "\<not> nullish message"
    and "body = get_prop M message ''body''"
    and "\<not> nullish body"
    and "get_prop M body ''type'' = Data (JStr ''ACK-NAK'')"
    and "reason = get_prop M body ''reason''"
  shows "extractResultOrReceiptFromMaybeAsyncResponse M message uavId
           = Inl (new_Error (js_or reason (Data (JStr ''ACK-NAK received; no reason given''))))
       \<and> (\<forall>r. reason = Data (JStr r) \<and> r \<noteq> [] \<longrightarrow>
            extractResultOrReceiptFromMaybeAsyncResponse M message uavId = Inl (JsError r))
       \<and> (\<not> truthy reason \<longrightarrow>
            extractResultOrReceiptFromMaybeAsyncResponse M message uavId
              = Inl (JsError ''ACK-NAK received; no reason given''))"
proof -
  have run: "extractResultOrReceiptFromMaybeAsyncResponse M message uavId
      = Inl (new_Error (js_or reason (Data (JStr ''ACK-NAK received; no reason given''))))"
    using assms by (simp add: extractResultOrReceiptFromMaybeAsyncResponse_def)
  show ?thesis
    using run by (auto simp: new_Error_string new_Error_default)
qed

theorem rejection_resolves_to_error_witness:
  "extractResultOrReceiptFromMaybeAsyncResponse plain_object_members
     (Data (JObj [(''body'', JObj [(''type'', JStr ''ACK-NAK''), (''reason'', JStr ''busy'')])]))
     ''uav-1'' = Inl (JsError ''busy'')
   \<and> extractResultOrReceiptFromMaybeAsyncResponse plain_object_members
     (Data (JObj [(''body'', JObj [(''type'', JStr ''ACK-NAK'')])]))
     ''uav-2'' = Inl (JsError ''ACK-NAK received; no reason given'')"
  using
    rejection_resolves_to_error [where M = plain_object_members and uavId = "''uav-1''"
      and message = "Data (JObj [(''body'', JObj [(''type'', JStr ''ACK-NAK''),
                                                 (''reason'', JStr ''busy'')])])",
      OF _ refl _ _ refl]
    rejection_resolves_to_error [where M = plain_object_members and uavId = "''uav-2''"
      and message = "Data (JObj [(''body'', JObj [(''type'', JStr ''ACK-NAK'')])])",
      OF _ refl _ _ refl]
  by (simp add: example_simps)

subsection \<open>Error before result before receipt\<close>

text \<open>
  Claim C2 states that, for a response of a receipt-bearing type, an entry in the \<^verbatim>\<open>result\<close>
  map gives \<^verbatim>\<open>Result(value)\<close> when the \<^verbatim>\<open>error\<close> map has no entry for the target id. The
  parser tests for an entry with the read \<^verbatim>\<open>error[uavId] !== undefined\<close>, and on a plain
  object the read also finds what the object inherits from \<^verbatim>\<open>Object.prototype\<close>. For the id
  \<^verbatim>\<open>constructor\<close> an empty \<^verbatim>\<open>error\<close> map passes the test, and the parser throws an \<^verbatim>\<open>Error\<close>
  made from the function \<^verbatim>\<open>Object\<close> although only \<^verbatim>\<open>result\<close> has an entry.
\<close>

theorem inherited_name_outranks_result:
  "\<not> holds_entry (Data (JObj [])) ''constructor''
   \<and> holds_entry (Data (JObj [(''constructor'', JNum ''1'')])) ''constructor''
   \<and> extractResultOrReceiptFromMaybeAsyncResponse plain_object_members
        (Data (JObj [(''body'', JObj [(''type'', JStr ''OBJ-CMD''),
           (''error'', JObj []),
           (''result'', JObj [(''constructor'', JNum ''1'')])])])) ''constructor''
      = Inl (JsError ''function Object() { [native code] }'')
   \<and> extractResultOrReceiptFromMaybeAsyncResponse plain_object_members
        (Data (JObj [(''body'', JObj [(''type'', JStr ''OBJ-CMD''),
           (''error'', JObj []),
           (''result'', JObj [(''constructor'', JNum ''1'')])])])) ''constructor''
      \<noteq> Inr [(''result'', Data (JNum ''1''))]"
  by (simp add: extractResultOrReceiptFromMaybeAsyncResponse_def MESSAGES_WITH_RECEIPTS_def
      example_simps)

text \<open>
  What does hold: the order error, result, receipt, for every target id under which the
  maps that are passed over hold nothing and inherit nothing. An entry in \<^verbatim>\<open>error\<close> gives
  an \<^verbatim>\<open>Error\<close> made from it whatever the other maps hold.
\<close>

lemma precedence_without_inherited_names:
  assumes "\<not> nullish message"
    and "body = get_prop M message ''body''"
    and "\<not> nullish body"
    and "get_prop M body ''type'' = Data (JStr t)"
    and "t \<in> receipt_bearing_types"
    and "error = get_prop M body ''error''"
    and "result = get_prop M body ''result''"
    and "receipt = get_prop M body ''receipt''"
  shows "(holds_entry error uavId \<longrightarrow>
            extractResultOrReceiptFromMaybeAsyncResponse M message uavId
              = Inl (new_Error (js_or (get_prop M error uavId)
                                      (Data (JStr ''Failed to execute command'')))))
       \<and> (lacks_entry M error uavId \<and> holds_entry result uavId \<longrightarrow>
            extractResultOrReceiptFromMaybeAsyncResponse M message uavId
              = Inr [(''result'', get_prop M result uavId)])
       \<and> (lacks_entry M error uavId \<and> lacks_entry M result uavId
            \<and> holds_entry receipt uavId \<longrightarrow>
            extractResultOrReceiptFromMaybeAsyncResponse M message uavId
              = Inr [(''receipt'', get_prop M receipt uavId)])"
proof -
  have run: "extractResultOrReceiptFromMaybeAsyncResponse M message uavId =
     (if has_entry M error uavId then
        Inl (new_Error (js_or (get_prop M error uavId)
                              (Data (JStr ''Failed to execute command''))))
      else if has_entry M result uavId then Inr [(''result'', get_prop M result uavId)]
      else if has_entry M receipt uavId then Inr [(''receipt'', get_prop M receipt uavId)]
      else Inl (JsError ''Server did not provide a response or receipt for the command''))"
    using assms receipt_branch [of message M t uavId] by (simp add: Let_def)
  show ?thesis
    unfolding run
    using holds_entry_guards(1) [of _ uavId M] lacks_entry_guards(1) [of M _ uavId]
    by auto
qed

subsection \<open>The table of receipt-bearing types\<close>

text \<open>
  Claim C3 states that a response whose type is neither \<^verbatim>\<open>ACK-NAK\<close> nor one of the eight
  names fails with \<^verbatim>\<open><type> messages do not contain receipts\<close>, whatever its maps hold. The
  membership test is the property read \<^verbatim>\<open>MESSAGES_WITH_RECEIPTS[type]\<close> on an object literal,
  and such a read also finds what the literal inherits from \<^verbatim>\<open>Object.prototype\<close>. The type
  \<^verbatim>\<open>constructor\<close> is none of the eight names, yet the read yields the function \<^verbatim>\<open>Object\<close>,
  which is truthy: the response is parsed as a receipt-bearing one and its result is
  returned.
\<close>

theorem inherited_name_taken_for_receipt_type:
  "''constructor'' \<notin> receipt_bearing_types
   \<and> extractResultOrReceiptFromMaybeAsyncResponse plain_object_members
     (Data (JObj [(''body'', JObj [(''type'', JStr ''constructor''),
                                   (''result'', JObj [(''07'', JNum ''1'')])])])) ''07''
     = Inr [(''result'', Data (JNum ''1''))]"
  by (simp add: extractResultOrReceiptFromMaybeAsyncResponse_def MESSAGES_WITH_RECEIPTS_def
      example_simps)

text \<open>
  What does hold: a type name that is neither \<^verbatim>\<open>ACK-NAK\<close> nor one of the eight, and under
  which the table inherits nothing, fails as the claim says.
\<close>

lemma unsupported_type:
  assumes "\<not> nullish message"
    and "body = get_prop M message ''body''"
    and "\<not> nullish body"
    and "get_prop M body ''type'' = Data (JStr t)"
    and "t \<noteq> ''ACK-NAK''"
    and "t \<notin> receipt_bearing_types"
    and "M MESSAGES_WITH_RECEIPTS t = None"
  shows "extractResultOrReceiptFromMaybeAsyncResponse M message uavId
           = Inl (JsError (t @ '' messages do not contain receipts''))"
  using assms
  by (simp add: extractResultOrReceiptFromMaybeAsyncResponse_def Let_def get_prop_def
      MESSAGES_WITH_RECEIPTS_def receipt_bearing_types_def)

subsection \<open>No outcome for the target\<close>

text \<open>
  Claim C4 states that the parser fails with a protocol error for a target id for which
  none of the three maps has an entry. The test for an entry is the read
  \<^verbatim>\<open>receipt[uavId] !== undefined\<close>, which also finds inherited members: asked for the id
  \<^verbatim>\<open>constructor\<close>, a response whose only entry is a receipt for target \<^verbatim>\<open>08\<close> yields the
  function \<^verbatim>\<open>Object\<close> as the receipt, and nothing is thrown.
\<close>

theorem inherited_name_returned_as_receipt:
  "\<not> holds_entry (Data (JObj [(''08'', JStr ''tok2'')])) ''constructor''
   \<and> extractResultOrReceiptFromMaybeAsyncResponse plain_object_members
        (Data (JObj [(''body'', JObj [(''type'', JStr ''UAV-LAND''),
           (''receipt'', JObj [(''08'', JStr ''tok2'')])])])) ''constructor''
      = Inr [(''receipt'', Builtin True ''function Object() { [native code] }'')]"
  by (simp add: extractResultOrReceiptFromMaybeAsyncResponse_def MESSAGES_WITH_RECEIPTS_def
      example_simps)

text \<open>
  What does hold: for a target id under which the three maps hold nothing and inherit
  nothing, the parser throws the \<^verbatim>\<open>Error\<close>
  \<^verbatim>\<open>Server did not provide a response or receipt for the command\<close>, which differs from the
  failure for a type without receipts, whatever type that one names.
\<close>

lemma missing_outcome_without_inherited_names:
  assumes "\<not> nullish message"
    and "body = get_prop M message ''body''"
    and "\<not> nullish body"
    and "get_prop M body ''type'' = Data (JStr t)"
    and "t \<in> receipt_bearing_types"
    and "lacks_entry M (get_prop M body ''error'') uavId"
    and "lacks_entry M (get_prop M body ''result'') uavId"
    and "lacks_entry M (get_prop M body ''receipt'') uavId"
  shows "extractResultOrReceiptFromMaybeAsyncResponse M message uavId
           = Inl (JsError ''Server did not provide a response or receipt for the command'')
       \<and> (\<forall>key. extractResultOrReceiptFromMaybeAsyncResponse M message uavId
                  \<noteq> Inl (JsError (key @ '' messages do not contain receipts'')))"
proof -
  have run: "extractResultOrReceiptFromMaybeAsyncResponse M message uavId
           = Inl (JsError ''Server did not provide a response or receipt for the command'')"
    using assms(1-5) lacks_entry_guards(1) [OF assms(6)] lacks_entry_guards(1) [OF assms(7)]
      lacks_entry_guards(1) [OF assms(8)] receipt_branch [of message M t uavId]
    by (simp add: Let_def)
  show ?thesis
    unfolding run using missing_outcome_not_unsupported by simp
qed

subsection \<open>Falsy error entries\<close>

text \<open>
  Claim C5: for a response of a receipt-bearing type whose \<^verbatim>\<open>error\<close> map has an entry for
  the target id that is falsy (the empty string, \<^verbatim>\<open>null\<close>, \<^verbatim>\<open>false\<close>, \<^verbatim>\<open>0\<close>), the parser
  throws the \<^verbatim>\<open>Error\<close> \<^verbatim>\<open>Failed to execute command\<close>.
\<close>

theorem falsy_error_entry_defaults:
  assumes "\<not> nullish message"
    and "body = get_prop M message ''body''"
    and "\<not> nullish body"
    and "get_prop M body ''type'' = Data (JStr t)"
    and "t \<in> receipt_bearing_types"
    and "has_entry M (get_prop M body ''error'') uavId"
    and "\<not> truthy (get_prop M (get_prop M body ''error'') uavId)"
  shows "extractResultOrReceiptFromMaybeAsyncResponse M message uavId
           = Inl (JsError ''Failed to execute command'')"
  using assms receipt_branch [of message M t uavId]
  by (simp add: Let_def new_Error_default)

text \<open>One response to \<^verbatim>\<open>OBJ-CMD\<close> with the four falsy entries named by the claim.\<close>

theorem falsy_error_entry_defaults_witness:
  "extractResultOrReceiptFromMaybeAsyncResponse plain_object_members
     (Data (JObj [(''body'', JObj [(''type'', JStr ''OBJ-CMD''),
        (''error'', JObj [(''a'', JStr []), (''b'', JNull), (''c'', JBool False),
                          (''d'', JNum ''0'')]),
        (''result'', JObj [(''a'', JNum ''1'')])])])) ''a''
     = Inl (JsError ''Failed to execute command'')
   \<and> extractResultOrReceiptFromMaybeAsyncResponse plain_object_members
     (Data (JObj [(''body'', JObj [(''type'', JStr ''OBJ-CMD''),
        (''error'', JObj [(''a'', JStr []), (''b'', JNull), (''c'', JBool False),
                          (''d'', JNum ''0'')]),
        (''result'', JObj [(''a'', JNum ''1'')])])])) ''b''
     = Inl (JsError ''Failed to execute command'')
   \<and> extractResultOrReceiptFromMaybeAsyncResponse plain_object_members
     (Data (JObj [(''body'', JObj [(''type'', JStr ''OBJ-CMD''),
        (''error'', JObj [(''a'', JStr []), (''b'', JNull), (''c'', JBool False),
                          (''d'', JNum ''0'')]),
        (''result'', JObj [(''a'', JNum ''1'')])])])) ''c''
     = Inl (JsError ''Failed to execute command'')
   \<and> extractResultOrReceiptFromMaybeAsyncResponse plain_object_members
     (Data (JObj [(''body'', JObj [(''type'', JStr ''OBJ-CMD''),
        (''error'', JObj [(''a'', JStr []), (''b'', JNull), (''c'', JBool False),
                          (''d'', JNum ''0'')]),
        (''result'', JObj [(''a'', JNum ''1'')])])])) ''d''
     = Inl (JsError ''Failed to execute command'')"
proof -
  let ?m = "Data (JObj [(''body'', JObj [(''type'', JStr ''OBJ-CMD''),
        (''error'', JObj [(''a'', JStr []), (''b'', JNull), (''c'', JBool False),
                          (''d'', JNum ''0'')]),
        (''result'', JObj [(''a'', JNum ''1'')])])])"
  have run: "extractResultOrReceiptFromMaybeAsyncResponse plain_object_members ?m k
        = Inl (JsError ''Failed to execute command'')"
    if "k \<in> {''a'', ''b'', ''c'', ''d''}" for k
    using that
      falsy_error_entry_defaults [where M = plain_object_members and uavId = k
        and t = "''OBJ-CMD''" and message = ?m, OF _ refl]
    by (auto simp: example_simps)
  show ?thesis
    by (simp add: run)
qed

subsection \<open>One tag per outcome\<close>

text \<open>
  Claim C6: for every message and every target id, a call either throws, or returns an
  object whose only property is \<^verbatim>\<open>result\<close>, or returns an object whose only property is
  \<^verbatim>\<open>receipt\<close>; the property returned is never \<^verbatim>\<open>undefined\<close>. No call returns both tags and
  no call returns neither.
\<close>

theorem one_tag_per_outcome:
  "(\<exists>e. extractResultOrReceiptFromMaybeAsyncResponse M message uavId = Inl e)
   \<or> (\<exists>v. v \<noteq> Undefined
          \<and> extractResultOrReceiptFromMaybeAsyncResponse M message uavId = Inr [(''result'', v)])
   \<or> (\<exists>v. v \<noteq> Undefined
          \<and> extractResultOrReceiptFromMaybeAsyncResponse M message uavId = Inr [(''receipt'', v)])"
  by (simp add: extractResultOrReceiptFromMaybeAsyncResponse_def Let_def split: option.splits)

section \<open>Properties of \<open>extractResponseForId\<close>\<close>

text \<open>
  In this section \<open>errors\<close> and \<open>results\<close> are what the parser reads under the paths
  \<^verbatim>\<open>body.error\<close> and \<^verbatim>\<open>body.status\<close>; lemmas \<open>lodash_get_body_error\<close> and
  \<open>lodash_get_body_status\<close> say what that is on an ordinary message.
\<close>

subsection \<open>The status entry\<close>

text \<open>
  Claim C7 states that the status entry is returned whenever it is present, before the
  error map is considered. The parser looks at the error map first: a response that has
  both a status entry and an error entry for the id throws.
\<close>

theorem status_entry_first_counterexample:
  "object_has_entry plain_object_members
     (lodash_get plain_object_members
        (Data (JObj [(''body'', JObj [(''status'', JObj [(''07'', JNum ''1'')]),
                                      (''error'', JObj [(''07'', JStr ''unreachable'')])])]))
        ''body.status'') ''07''
   \<and> extractResponseForId plain_object_members
        (Data (JObj [(''body'', JObj [(''status'', JObj [(''07'', JNum ''1'')]),
                                      (''error'', JObj [(''07'', JStr ''unreachable'')])])]))
        ''07'' Undefined
      = Inl (JsTypeError ''unreachable'')
   \<and> extractResponseForId plain_object_members
        (Data (JObj [(''body'', JObj [(''status'', JObj [(''07'', JNum ''1'')]),
                                      (''error'', JObj [(''07'', JStr ''unreachable'')])])]))
        ''07'' Undefined
      \<noteq> Inr (Data (JNum ''1''))"
  by (simp add: extractResponseForId_def example_simps)

text \<open>
  Claim C7, amended: for every response and every requested id such that the status map
  has an entry for the id, and the error map is absent or is an object that has no entry
  for the id and inherits no member under that name, the parser returns the status
  entry. The error map is considered first.
\<close>

theorem status_entry_returned:
  assumes "errors = lodash_get M message ''body.error''"
    and "results = lodash_get M message ''body.status''"
    and "lacks_entry M errors ident"
    and "holds_entry results ident"
  shows "own_prop results ident = Some (get_prop M results ident)
       \<and> extractResponseForId M message ident options = Inr (get_prop M results ident)"
proof -
  note no_error = lacks_entry_guards(2,3) [OF assms(3)]
  note status = holds_entry_guards(2,3) [OF assms(4), of M]
  have "extractResponseForId M message ident options = Inr (get_prop M results ident)"
    using assms(1,2) no_error status(1)
    by (auto simp: extractResponseForId_def object_has_entry_def Let_def)
  then show ?thesis
    using status(2) by simp
qed

theorem status_entry_returned_witness:
  "lacks_entry plain_object_members (Data (JObj [(''08'', JStr ''unreachable'')])) ''07''
   \<and> holds_entry (Data (JObj [(''07'', JNum ''1'')])) ''07''
   \<and> extractResponseForId plain_object_members
     (Data (JObj [(''body'', JObj [(''status'', JObj [(''07'', JNum ''1'')]),
                                   (''error'', JObj [(''08'', JStr ''unreachable'')])])]))
     ''07'' Undefined
   = Inr (Data (JNum ''1''))"
  using
    status_entry_returned [where M = plain_object_members and ident = "''07''"
      and options = Undefined
      and message = "Data (JObj [(''body'', JObj [(''status'', JObj [(''07'', JNum ''1'')]),
                                   (''error'', JObj [(''08'', JStr ''unreachable'')])])])",
      OF refl refl]
  by (simp add: example_simps)

subsection \<open>The error entry\<close>

text \<open>
  Claim C8: for every response whose error map has an entry for the requested id, the
  parser throws, whatever the status map holds. When the entry is a string the exception
  (a \<^verbatim>\<open>TypeError\<close>) carries the entry itself. When the entry is not a string the exception
  (an \<^verbatim>\<open>Error\<close>) carries a message that is not taken from the response: the caller's
  \<^verbatim>\<open>options.error\<close> if that is truthy, else
  \<^verbatim>\<open>Failed to retrieve result for ID <id> from response\<close>. (The options must not be \<^verbatim>\<open>null\<close>;
  a call without options has the empty object.)
\<close>

theorem error_entry_reason:
  assumes "errors = lodash_get M message ''body.error''"
    and "object_has_entry M errors ident"
    and "entry = get_prop M errors ident"
    and "opts = (if options = Undefined then Data (JObj []) else options)"
  shows "(\<forall>s. entry = Data (JStr s) \<longrightarrow>
            extractResponseForId M message ident options = Inl (JsTypeError s))
       \<and> (typeof entry \<noteq> ''string'' \<and> \<not> nullish opts \<longrightarrow>
            extractResponseForId M message ident options
              = Inl (new_Error (js_or (get_prop M opts ''error'')
                     (Data (JStr (''Failed to retrieve result for ID '' @ ident
                                  @ '' from response''))))))
       \<and> (typeof entry \<noteq> ''string'' \<and> \<not> nullish opts \<and> \<not> truthy (get_prop M opts ''error'')
            \<longrightarrow> extractResponseForId M message ident options
              = Inl (JsError (''Failed to retrieve result for ID '' @ ident
                              @ '' from response'')))"
proof -
  have guard: "typeof errors = ''object''" "errors \<noteq> Data JNull" "entry \<noteq> Undefined"
    using assms by (simp_all add: object_has_entry_def)
  have str: "extractResponseForId M message ident options = Inl (JsTypeError s)"
    if "entry = Data (JStr s)" for s
    using that guard assms(1,3) by (simp add: extractResponseForId_def Let_def)
  have other: "extractResponseForId M message ident options
      = Inl (new_Error (js_or (get_prop M opts ''error'')
             (Data (JStr (''Failed to retrieve result for ID '' @ ident @ '' from response'')))))"
    if "typeof entry \<noteq> ''string''" "\<not> nullish opts"
  proof -
    have "\<And>s. entry \<noteq> Data (JStr s)"
      using that(1) by auto
    then show ?thesis
      using that guard assms(1,3,4)
      by (auto simp: extractResponseForId_def Let_def nullish_def
          split: jsval.splits json.splits)
  qed
  show ?thesis
    using str other by (simp add: new_Error_default)
qed

text \<open>A string entry for id \<^verbatim>\<open>07\<close> and a structured entry for id \<^verbatim>\<open>08\<close>, beside a status map.\<close>

theorem error_entry_reason_witness:
  "extractResponseForId plain_object_members
     (Data (JObj [(''body'', JObj [(''status'', JObj [(''07'', JNum ''1'')]),
        (''error'', JObj [(''07'', JStr ''unreachable''),
                          (''08'', JObj [(''code'', JNum ''4'')])])])]))
     ''07'' Undefined
   = Inl (JsTypeError ''unreachable'')
   \<and> extractResponseForId plain_object_members
     (Data (JObj [(''body'', JObj [(''status'', JObj [(''07'', JNum ''1'')]),
        (''error'', JObj [(''07'', JStr ''unreachable''),
                          (''08'', JObj [(''code'', JNum ''4'')])])])]))
     ''08'' Undefined
   = Inl (JsError ''Failed to retrieve result for ID 08 from response'')"
  using
    error_entry_reason [where M = plain_object_members and ident = "''07''"
      and options = Undefined
      and message = "Data (JObj [(''body'', JObj [(''status'', JObj [(''07'', JNum ''1'')]),
        (''error'', JObj [(''07'', JStr ''unreachable''),
                          (''08'', JObj [(''code'', JNum ''4'')])])])])",
      OF refl _ refl refl]
    error_entry_reason [where M = plain_object_members and ident = "''08''"
      and options = Undefined
      and message = "Data (JObj [(''body'', JObj [(''status'', JObj [(''07'', JNum ''1'')]),
        (''error'', JObj [(''07'', JStr ''unreachable''),
                          (''08'', JObj [(''code'', JNum ''4'')])])])])",
      OF refl _ refl refl]
  by (simp add: example_simps)

subsection \<open>Neither a status nor an error\<close>

text \<open>
  Claim C9 states that the parser fails with the internal-inconsistency error when neither
  the status map nor the error map has an entry for the requested id. The test for an
  error entry is the read \<^verbatim>\<open>errors[id] !== undefined\<close>, which also finds inherited members:
  for the id \<^verbatim>\<open>constructor\<close> the read yields the function \<^verbatim>\<open>Object\<close>, and the parser throws
  the failure of an error entry, \<^verbatim>\<open>Failed to retrieve result for ID constructor from response\<close>.
\<close>

theorem inherited_name_taken_for_error_entry:
  "\<not> holds_entry (Data (JObj [(''08'', JObj [(''code'', JNum ''4'')])])) ''constructor''
   \<and> \<not> holds_entry (Data (JObj [(''07'', JNum ''1'')])) ''constructor''
   \<and> extractResponseForId plain_object_members
        (Data (JObj [(''body'', JObj [(''status'', JObj [(''07'', JNum ''1'')]),
                                      (''error'', JObj [(''08'', JObj [(''code'', JNum ''4'')])])])]))
        ''constructor'' Undefined
      = Inl (JsError ''Failed to retrieve result for ID constructor from response'')
   \<and> extractResponseForId plain_object_members
        (Data (JObj [(''body'', JObj [(''status'', JObj [(''07'', JNum ''1'')]),
                                      (''error'', JObj [(''08'', JObj [(''code'', JNum ''4'')])])])]))
        ''constructor'' Undefined
      \<noteq> Inl (JsError
          ''No result for ID constructor but no error either; this should not have happened.'')"
  by (simp add: extractResponseForId_def example_simps)

text \<open>
  What does hold: for an id under which both maps hold nothing and inherit nothing, the
  parser throws the \<^verbatim>\<open>Error\<close>
  \<^verbatim>\<open>No result for ID <id> but no error either; this should not have happened.\<close> No call that
  fails on an error entry throws the same exception, unless its caller supplied a message
  of its own in \<^verbatim>\<open>options.error\<close>: a string entry gives a \<^verbatim>\<open>TypeError\<close>, any other entry the
  \<^verbatim>\<open>Failed to retrieve result\<close> message.
\<close>

lemma inconsistency_without_inherited_names:
  assumes "errors = lodash_get M message ''body.error''"
    and "results = lodash_get M message ''body.status''"
    and "lacks_entry M errors ident"
    and "lacks_entry M results ident"
  shows "extractResponseForId M message ident options
           = Inl (JsError (''No result for ID '' @ ident
                           @ '' but no error either; this should not have happened.''))"
  using assms(1,2) lacks_entry_guards(2,3) [OF assms(3)] lacks_entry_guards(2,3) [OF assms(4)]
  by (auto simp: extractResponseForId_def object_has_entry_def Let_def)

lemma error_entry_failure_is_not_inconsistency:
  assumes "object_has_entry M (lodash_get M message ''body.error'') ident"
    and "\<not> truthy (get_prop M (if options = Undefined then Data (JObj []) else options)
                            ''error'')"
  shows "extractResponseForId M message ident options
           \<noteq> Inl (JsError (''No result for ID '' @ ident'
                           @ '' but no error either; this should not have happened.''))"
  using assms
  by (auto simp: extractResponseForId_def object_has_entry_def Let_def new_Error_default
      split: jsval.splits json.splits)

subsection \<open>An error field that is not an object\<close>

text \<open>
  Claim C10 states that, when \<^verbatim>\<open>body.error\<close> is present but not of object type, the call
  returns the status entry if there is one and fails with the \<^verbatim>\<open>No result for ID\<close> error
  otherwise. The second guard, \<^verbatim>\<open>typeof results === 'object'\<close>, lets \<^verbatim>\<open>null\<close> through: with a
  status of \<^verbatim>\<open>null\<close> the read \<^verbatim>\<open>results[id]\<close> throws the engine's \<^verbatim>\<open>TypeError\<close> before the
  final \<^verbatim>\<open>throw\<close> is reached.
\<close>

theorem null_status_throws_engine_error:
  "typeof (lodash_get plain_object_members
             (Data (JObj [(''body'', JObj [(''error'', JStr ''oops''), (''status'', JNull)])]))
             ''body.error'') = ''string''
   \<and> extractResponseForId plain_object_members
        (Data (JObj [(''body'', JObj [(''error'', JStr ''oops''), (''status'', JNull)])]))
        ''07'' Undefined
      = Inl NativeTypeError
   \<and> extractResponseForId plain_object_members
        (Data (JObj [(''body'', JObj [(''error'', JStr ''oops''), (''status'', JNull)])]))
        ''07'' Undefined
      \<noteq> Inl (JsError ''No result for ID 07 but no error either; this should not have happened.'')"
  by (simp add: extractResponseForId_def example_simps)

text \<open>
  What does hold: when the error field is not of object type and the status is not
  \<^verbatim>\<open>null\<close>, the error branch is not taken and the call behaves as the claim says.
\<close>

lemma status_after_malformed_error:
  assumes "errors = lodash_get M message ''body.error''"
    and "results = lodash_get M message ''body.status''"
    and "typeof errors \<noteq> ''object''"
    and "results \<noteq> Data JNull"
  shows "extractResponseForId M message ident options =
     (if object_has_entry M results ident then Inr (get_prop M results ident)
      else Inl (JsError (''No result for ID '' @ ident
                         @ '' but no error either; this should not have happened.'')))"
  using assms
  by (auto simp: extractResponseForId_def object_has_entry_def Let_def)

end
